theory Spec2Isabelle
  imports Complex_Main
begin

section \<open>Python values used by android\_emuroot.py\<close>

text \<open>
  The exceptions the script can end with. The script raises plain \<open>Exception\<close> objects
  that differ only in their message, so each message gets a constructor of its own:
  \<^item> \<open>DeviceInvalid\<close>: \<open>Exception('Device name invalid. Check "adb devices" ...')\<close>;
  \<^item> \<open>GdbUnreachable\<close>: \<open>Exception("GDB server not reachable. Did you start it?")\<close>;
  \<^item> \<open>GdbTimeout\<close>: \<open>Exception("GDB timeout reached. Quit")\<close>;
  \<^item> \<open>StructNotFound\<close>: \<open>Exception("Could not find process task struct")\<close>;
  \<^item> \<open>SystemExit\<close>: \<open>exit(1)\<close> in \<open>check_process_is_running\<close>;
  \<^item> \<open>IndexError\<close>, \<open>ValueError\<close>, \<open>TypeError\<close>, \<open>AttributeError\<close>: the built-in
    exceptions of an index out of range, of \<open>float\<close> on a text that is no number, of
    arithmetic on \<open>None\<close> and of a method call on \<open>None\<close>;
  \<^item> \<open>ResponseError\<close>: the exception that leaves \<open>read_str\<close> (which has no handler)
    when the reply to \<open>x/s\<close> has not the expected shape.
\<close>

datatype error =
    DeviceInvalid
  | IndexError
  | ValueError
  | NotImplementedError
  | SystemExit
  | GdbUnreachable
  | GdbTimeout
  | StructNotFound
  | TypeError
  | AttributeError
  | ResponseError

subsection \<open>Floats\<close>

text \<open>
  \<open>kernel_version\<close> turns the first two dot-separated fields of \<open>uname -r\<close> into a
  Python \<open>float\<close> and compares it with the float literals \<open>3.10\<close> and \<open>3.18\<close>.
  A Python float is an IEEE 754 binary64 number. Every finite one is a rational number,
  and the comparison of two floats is the comparison of those rationals, so a float is
  modelled by its exact value. A text that contains a dot is never read as a NaN, so the
  model has none.
\<close>

datatype pyfloat = NegInf | Finite rat | PosInf

fun float_le :: "pyfloat \<Rightarrow> pyfloat \<Rightarrow> bool" where
  "float_le NegInf y = True"
| "float_le (Finite a) NegInf = False"
| "float_le (Finite a) (Finite b) = (a \<le> b)"
| "float_le (Finite a) PosInf = True"
| "float_le PosInf y = (y = PosInf)"

definition float_gt :: "pyfloat \<Rightarrow> pyfloat \<Rightarrow> bool" where
  "float_gt x y = (\<not> float_le x y)"

text \<open>
  Conversion of a decimal text, and of a literal of the source, rounds the exact decimal
  value to the nearest binary64 number, ties to the even significand. \<open>scale_down\<close> and
  \<open>scale_up\<close> bring a positive value into \<open>[1, 2)\<close> and count the binary exponent, which
  stays within the exponent range of the format: below it the spacing of the subnormal
  numbers applies. The result is infinite when the rounded value reaches \<open>2 ^ 1024\<close>:
  the exponent has left the range, or the significand at the highest exponent has been
  rounded up to \<open>2 ^ 53\<close>.
\<close>

definition round_half_even :: "rat \<Rightarrow> int" where
  "round_half_even x =
     (let f = \<lfloor>x\<rfloor>; r = x - of_int f
      in if r < 1 / 2 then f else if 1 / 2 < r then f + 1 else if even f then f else f + 1)"

function scale_down :: "rat \<Rightarrow> int \<Rightarrow> rat \<times> int" where
  "scale_down x e = (if 2 \<le> x \<and> e < 1024 then scale_down (x / 2) (e + 1) else (x, e))"
  by pat_completeness auto
termination
  by (relation "measure (\<lambda>(x, e). nat (1024 - e))") auto

function scale_up :: "rat \<Rightarrow> int \<Rightarrow> rat \<times> int" where
  "scale_up x e = (if x < 1 \<and> - 1022 < e then scale_up (x * 2) (e - 1) else (x, e))"
  by pat_completeness auto
termination
  by (relation "measure (\<lambda>(x, e). nat (e + 1022))") auto

definition binary64_of_pos :: "rat \<Rightarrow> pyfloat" where
  "binary64_of_pos x =
     (let (m, e) = (if 1 \<le> x then scale_down x 0 else scale_up x 0);
          n = round_half_even (m * 2 ^ 52);
          v = (if 52 \<le> e then of_int n * 2 ^ nat (e - 52) else of_int n / 2 ^ nat (52 - e))
      in if 1024 \<le> e \<or> (e = 1023 \<and> n = 2 ^ 53) then PosInf else Finite v)"

definition float_neg :: "pyfloat \<Rightarrow> pyfloat" where
  "float_neg x = (case x of NegInf \<Rightarrow> PosInf | Finite a \<Rightarrow> Finite (- a) | PosInf \<Rightarrow> NegInf)"

definition binary64 :: "rat \<Rightarrow> pyfloat" where
  "binary64 x =
     (if x = 0 then Finite 0
      else if 0 < x then binary64_of_pos x
      else float_neg (binary64_of_pos (- x)))"

text \<open>
  \<open>float(text)\<close> for the texts \<open>kernel_version\<close> builds: white space around the number is
  dropped, then come an optional sign, digits, a dot and digits, with a digit on at least
  one side of the dot. Any other text is a \<open>ValueError\<close> (\<open>None\<close> here). Python reads a few
  more spellings as numbers (an exponent part, underscores between digits); \<open>uname -r\<close>
  does not print them and the model leaves them out.
\<close>

definition is_space :: "char \<Rightarrow> bool" where
  "is_space c = (c = CHR '' '' \<or> c = CHR 0x09 \<or> c = CHR 0x0A \<or> c = CHR 0x0B
                 \<or> c = CHR 0x0C \<or> c = CHR 0x0D)"

definition strip :: "string \<Rightarrow> string" where
  "strip s = rev (dropWhile is_space (rev (dropWhile is_space s)))"

definition is_digit :: "char \<Rightarrow> bool" where
  "is_digit c = (48 \<le> (of_char c :: nat) \<and> (of_char c :: nat) \<le> 57)"

fun digits_value :: "nat \<Rightarrow> string \<Rightarrow> nat" where
  "digits_value acc [] = acc"
| "digits_value acc (c # cs) = digits_value (10 * acc + (of_char c - 48)) cs"

definition py_float :: "string \<Rightarrow> pyfloat option" where
  "py_float text =
     (let t = strip text;
          (negative, u) = (case t of
                             c # r \<Rightarrow> if c = CHR ''-'' then (True, r)
                                      else if c = CHR ''+'' then (False, r) else (False, t)
                           | [] \<Rightarrow> (False, t));
          ip = takeWhile is_digit u;
          rest = dropWhile is_digit u
      in case rest of
           [] \<Rightarrow> if ip = [] then None
                 else Some (binary64 ((if negative then - 1 else 1) * of_nat (digits_value 0 ip)))
         | c # fp \<Rightarrow>
             if c = CHR ''.'' \<and> list_all is_digit fp \<and> \<not> (ip = [] \<and> fp = [])
             then Some (binary64 ((if negative then - 1 else 1) *
                    (of_nat (digits_value 0 ip) + of_nat (digits_value 0 fp) / 10 ^ length fp)))
             else None)"

text \<open>The float literals \<open>3.10\<close> and \<open>3.18\<close> of the source.\<close>

definition float_3_10 :: pyfloat where
  "float_3_10 = binary64 (310 / 100)"

definition float_3_18 :: pyfloat where
  "float_3_18 = binary64 (318 / 100)"

text \<open>
  \<open>text.split(sep)\<close> for a separator of one character. The result is never empty, so
  the second case of the \<open>case\<close> is never taken.
\<close>

fun split :: "char \<Rightarrow> string \<Rightarrow> string list" where
  "split sep [] = [[]]"
| "split sep (c # cs) =
     (if c = sep then [] # split sep cs
      else (case split sep cs of
              part # parts \<Rightarrow> (c # part) # parts
            | [] \<Rightarrow> [[c]]))"

text \<open>\<open>sub in text\<close>: the text holds \<open>sub\<close> as a contiguous part.\<close>

fun str_contains :: "string \<Rightarrow> string \<Rightarrow> bool" where
  "str_contains [] sub = (sub = [])"
| "str_contains (c # cs) sub = (take (length sub) (c # cs) = sub \<or> str_contains cs sub)"

section \<open>ADB functions\<close>

text \<open>
  The device \<open>client.device(options.device)\<close> returns, or \<open>None\<close> when the name is not
  one of the connected devices. Of the device the script only uses \<open>shell\<close>: the output
  of \<open>uname -r\<close> and of the process listing, which depends on the listing command.
\<close>

record adb_device =
  uname_r :: string
  ps_output :: "string \<Rightarrow> string"

text \<open>
  The namespace \<open>options\<close>: the command line's \<open>--magic-name\<close> and \<open>--stealth\<close>, and the
  five values \<open>kernel_version()\<close> returns, which the main block stores into it.
\<close>

record options =
  magic_name :: string
  stealth :: bool
  version :: pyfloat
  offset_to_comm :: int
  offset_to_parent :: int
  offset_selinux :: "int list"
  ps_cmd :: string

definition kernel_version ::
  "adb_device option \<Rightarrow> error + (pyfloat \<times> int \<times> int \<times> int list \<times> string)" where
  "kernel_version device =
     (case device of
        None \<Rightarrow> Inl DeviceInvalid
      | Some d \<Rightarrow>
          (case split CHR ''.'' (uname_r d) of
             r0 # r1 # _ \<Rightarrow>
               (case py_float (r0 @ ''.'' @ r1) of
                  None \<Rightarrow> Inl ValueError
                | Some ver \<Rightarrow>
                    if float_le ver float_3_10
                    then Inr (ver, 0x288, 0xe0, [0xC0A77548, 0xC0A7754C, 0xC0A77550], ''ps'')
                    else if float_gt ver float_3_10 \<and> float_le ver float_3_18
                    then Inr (ver, 0x444, 0xe0, [0xC0C4F288, 0xC0C4F28C, 0xC0C4F280], ''ps -A'')
                    else Inl NotImplementedError)
           | _ \<Rightarrow> Inl IndexError))"

definition check_process_is_running ::
  "string \<Rightarrow> string \<Rightarrow> adb_device option \<Rightarrow> error + unit" where
  "check_process_is_running process pscmd device =
     (case device of
        None \<Rightarrow> Inl DeviceInvalid
      | Some d \<Rightarrow> if str_contains (ps_output d pscmd) process then Inr () else Inl SystemExit)"

section \<open>GDB functions\<close>

text \<open>
  The commands \<open>self.gdb.write\<close> sends, and \<open>self.gdb.exit()\<close>. The script's own effect on
  the target is the sequence of these commands.
\<close>

datatype command =
    Target_remote
  | Examine_word int
  | Examine_string int
  | Set_word int int
  | Find string
  | Exit

text \<open>
  What the body of \<open>read_mem\<close>'s \<open>try\<close> makes of the reply to \<open>x/xw\<close>: the number
  \<open>int(r, 16)\<close>, or one of the exceptions the handler catches (\<open>TypeError\<close>,
  \<open>ValueError\<close>, \<open>IndexError\<close>, \<open>AttributeError\<close>; the time-out error of the GDB library
  is a \<open>ValueError\<close>).
\<close>

datatype reply = Malformed | Word int

text \<open>
  The GDB controller together with a simulated target behind it:
  \<^item> \<open>target_up\<close>: the reply to \<open>target remote :1234\<close> contains \<open>Remote debugging\<close>;
  \<^item> \<open>memory\<close>: the word the target holds at each address (the structures the script
    reads and writes lie four bytes apart, words that overlap are not modelled);
  \<^item> \<open>cstrings\<close>: the reply to \<open>x/s\<close> at each address, after \<open>read_str\<close> has cut it
    out of the payload (quotation marks included), \<open>None\<close> when the reply has not the shape
    \<open>read_str\<close> expects;
  \<^item> \<open>find_hits\<close>: the addresses in the reply to \<open>find\<close>, in the order of the reply;
  \<^item> \<open>malformed\<close>: for the coming replies to \<open>x/xw\<close>, in order, whether the reply is
    malformed; when the list is used up every reply is well-formed;
  \<^item> \<open>sent\<close>: the commands sent so far, oldest first;
  \<^item> \<open>stopped\<close>: \<open>self.gdb.exit()\<close> has been called.
  The replies to \<open>set\<close> and \<open>find\<close> are taken to arrive in time.
\<close>

record gdb =
  target_up :: bool
  memory :: "int \<Rightarrow> int"
  cstrings :: "int \<Rightarrow> string option"
  find_hits :: "string \<Rightarrow> int list"
  malformed :: "bool list"
  sent :: "command list"
  stopped :: bool

definition stop :: "gdb \<Rightarrow> gdb" where
  "stop s = s\<lparr>sent := sent s @ [Exit], stopped := True\<rparr>"

definition GDB_stub_controller_init :: "gdb \<Rightarrow> (error + unit) \<times> gdb" where
  "GDB_stub_controller_init s =
     (let s' = s\<lparr>sent := sent s @ [Target_remote]\<rparr>
      in if target_up s then (Inr (), s') else (Inl GdbUnreachable, stop s'))"

text \<open>\<open>set *(unsigned int*) (addr) = val\<close> stores the low 32 bits of \<open>val\<close>.\<close>

definition write_mem :: "int \<Rightarrow> int \<Rightarrow> gdb \<Rightarrow> gdb" where
  "write_mem addr val s =
     s\<lparr>memory := (memory s)(addr := val mod 2 ^ 32), sent := sent s @ [Set_word addr val]\<rparr>"

definition examine_word :: "int \<Rightarrow> gdb \<Rightarrow> reply \<times> gdb" where
  "examine_word addr s =
     (let s' = s\<lparr>sent := sent s @ [Examine_word addr]\<rparr>
      in case malformed s of
           [] \<Rightarrow> (Word (memory s addr), s')
         | bad # rest \<Rightarrow>
             (if bad then Malformed else Word (memory s addr), s'\<lparr>malformed := rest\<rparr>))"

text \<open>
  \<open>read_mem(addr, rec=0)\<close>. The handler's first branch calls \<open>self.read_mem(addr, rec=1)\<close>
  as a statement, without \<open>return\<close>: when that call comes back, the outer call falls off
  the end of the function and returns \<open>None\<close>. The result is therefore an optional number.
  An exception of the inner call is not caught by the outer one (it is raised inside the
  outer call's handler) and leaves both.
\<close>

function read_mem :: "int \<Rightarrow> int \<Rightarrow> gdb \<Rightarrow> (error + int option) \<times> gdb" where
  "read_mem addr rec s =
     (case examine_word addr s of
        (Word r, s') \<Rightarrow> (Inr (Some r), s')
      | (Malformed, s') \<Rightarrow>
          if rec = 0
          then (case read_mem addr 1 s' of
                  (Inl e, s'') \<Rightarrow> (Inl e, s'')
                | (Inr _, s'') \<Rightarrow> (Inr None, s''))
          else (Inl GdbTimeout, stop s'))"
  by pat_completeness auto
termination
  by (relation "measure (\<lambda>(addr, rec, s). if rec = 0 then 1 else 0)") auto

definition read_str :: "int \<Rightarrow> gdb \<Rightarrow> (error + string) \<times> gdb" where
  "read_str addr s =
     (let s' = s\<lparr>sent := sent s @ [Examine_string addr]\<rparr>
      in case cstrings s addr of
           None \<Rightarrow> (Inl ResponseError, s')
         | Some r \<Rightarrow> (Inr r, s'))"

definition gdb_find :: "string \<Rightarrow> gdb \<Rightarrow> int list \<times> gdb" where
  "gdb_find name s = (find_hits s name, s\<lparr>sent := sent s @ [Find name]\<rparr>)"

definition disable_selinux :: "options \<Rightarrow> gdb \<Rightarrow> (error + unit) \<times> gdb" where
  "disable_selinux opts s =
     (case offset_selinux opts of
        [] \<Rightarrow> (Inl IndexError, s)
      | [a] \<Rightarrow> (Inl IndexError, write_mem a 0 s)
      | [a, b] \<Rightarrow> (Inl IndexError, write_mem b 0 (write_mem a 0 s))
      | a # b # c # _ \<Rightarrow> (Inr (), write_mem c 0 (write_mem b 0 (write_mem a 0 s))))"

definition set_full_capabilities :: "int \<Rightarrow> gdb \<Rightarrow> gdb" where
  "set_full_capabilities cred_addr s =
     fold (\<lambda>ofs. write_mem (cred_addr + ofs) 0xffffffff) [0x30, 0x34, 0x38, 0x3c, 0x40, 0x44] s"

definition set_root_ids :: "int \<Rightarrow> bool \<Rightarrow> gdb \<Rightarrow> gdb" where
  "set_root_ids cred_addr effective s =
     (let s' = fold (\<lambda>ofs. write_mem (cred_addr + ofs) 0x00000000)
                 [0x04, 0x08, 0x0c, 0x10, 0x1c, 0x20] s
      in if effective
         then write_mem (cred_addr + 0x18) 0x00000000 (write_mem (cred_addr + 0x14) 0x00000000 s')
         else s')"

text \<open>
  The second loop of \<open>get_process_task_struct\<close>, over the candidates that are left.
  \<open>magic_cred_ptr1 == magic_cred_ptr2\<close> compares what the two calls of \<open>read_mem\<close>
  returned, numbers or \<open>None\<close>.
\<close>

fun validate_candidates :: "options \<Rightarrow> int list \<Rightarrow> gdb \<Rightarrow> (error + int) \<times> gdb" where
  "validate_candidates opts [] s = (Inl StructNotFound, s)"
| "validate_candidates opts (c # cs) s =
     (case read_mem (c - 8) 0 s of
        (Inl e, s1) \<Rightarrow> (Inl e, s1)
      | (Inr magic_cred_ptr1, s1) \<Rightarrow>
          (case read_mem (c - 4) 0 s1 of
             (Inl e, s2) \<Rightarrow> (Inl e, s2)
           | (Inr magic_cred_ptr2, s2) \<Rightarrow>
               if magic_cred_ptr1 = magic_cred_ptr2
               then (Inr (c - offset_to_comm opts), s2)
               else validate_candidates opts cs s2))"

definition get_process_task_struct ::
  "options \<Rightarrow> string \<Rightarrow> gdb \<Rightarrow> (error + int) \<times> gdb" where
  "get_process_task_struct opts process s =
     (let (addresses, s') = gdb_find process s;
          candidates = filter (\<lambda>addr. addr mod 16 = offset_to_comm opts mod 16) addresses
      in validate_candidates opts candidates s')"

text \<open>
  \<open>get_adbd_cred_struct(stager_addr)\<close>: the loop \<open>while True\<close> with \<open>cur\<close> as its variable,
  started at \<open>stager_addr\<close>. The loop has no exit but the \<open>break\<close> at a parent called
  \<open>"adbd"\<close> and an exception, so the function is partial: \<open>None\<close> is a run that never
  returns. The name \<open>read_str\<close> returns is compared with the quotation marks GDB prints.
  A parent address that is \<open>None\<close> makes \<open>parent_struct_addr + offset_to_comm\<close> a
  \<open>TypeError\<close>.
\<close>

definition adbd_quoted :: string where
  "adbd_quoted = [CHR 0x22] @ ''adbd'' @ [CHR 0x22]"

partial_function (option) get_adbd_cred_struct ::
  "options \<Rightarrow> int \<Rightarrow> gdb \<Rightarrow> ((error + int option) \<times> gdb) option" where
  "get_adbd_cred_struct opts cur s =
     (case read_mem (cur + offset_to_comm opts - offset_to_parent opts) 0 s of
        (Inl e, s1) \<Rightarrow> Some (Inl e, s1)
      | (Inr None, s1) \<Rightarrow> Some (Inl TypeError, s1)
      | (Inr (Some parent_struct_addr), s1) \<Rightarrow>
          (case read_str (parent_struct_addr + offset_to_comm opts) s1 of
             (Inl e, s2) \<Rightarrow> Some (Inl e, s2)
           | (Inr parent_struct_name, s2) \<Rightarrow>
               if parent_struct_name = adbd_quoted
               then Some (read_mem (parent_struct_addr + offset_to_comm opts - 4) 0 s2)
               else get_adbd_cred_struct opts parent_struct_addr s2))"

section \<open>Emuroot options\<close>

text \<open>
  What a mode works on: the device, the GDB controller with the target behind it, and
  whether \<open>stager_clean\<close> has removed the staged files. The staged modes start the
  stager script in a background thread and sleep; the model does not follow that thread,
  the main thread sees it only through the process listing.
\<close>

record world =
  adb :: "adb_device option"
  gdbsc :: gdb
  cleaned :: bool

definition stager_clean :: "world \<Rightarrow> (error + unit) \<times> world" where
  "stager_clean w =
     (case adb w of
        None \<Rightarrow> (Inl AttributeError, w)
      | Some d \<Rightarrow> (Inr (), w\<lparr>cleaned := True\<rparr>))"

text \<open>
  \<open>set_root_ids(ptr)\<close> followed by \<open>set_full_capabilities(ptr)\<close> on what \<open>read_mem\<close>
  returned: on \<open>None\<close> the first \<open>cred_addr + ofs\<close> is a \<open>TypeError\<close>, before any write.
\<close>

definition single_mode :: "options \<Rightarrow> world \<Rightarrow> (error + unit) \<times> world" where
  "single_mode opts w =
     (case check_process_is_running (magic_name opts) (ps_cmd opts) (adb w) of
        Inl e \<Rightarrow> (Inl e, w)
      | Inr _ \<Rightarrow>
     (case GDB_stub_controller_init (gdbsc w) of
        (Inl e, g0) \<Rightarrow> (Inl e, w\<lparr>gdbsc := g0\<rparr>)
      | (Inr _, g0) \<Rightarrow>
     (case get_process_task_struct opts (magic_name opts) g0 of
        (Inl e, g1) \<Rightarrow> (Inl e, w\<lparr>gdbsc := g1\<rparr>)
      | (Inr magic, g1) \<Rightarrow>
     (case read_mem (magic + offset_to_comm opts - 8) 0 g1 of
        (Inl e, g2) \<Rightarrow> (Inl e, w\<lparr>gdbsc := g2\<rparr>)
      | (Inr None, g2) \<Rightarrow> (Inl TypeError, w\<lparr>gdbsc := g2\<rparr>)
      | (Inr (Some magic_cred_ptr), g2) \<Rightarrow>
     (case disable_selinux opts
             (set_full_capabilities magic_cred_ptr (set_root_ids magic_cred_ptr True g2)) of
        (Inl e, g3) \<Rightarrow> (Inl e, w\<lparr>gdbsc := g3\<rparr>)
      | (Inr _, g3) \<Rightarrow> (Inr (), w\<lparr>gdbsc := stop g3\<rparr>))))))"

text \<open>
  The last steps the two staged modes share: patch the stager's own credential, stop the
  controller, clean the staged files.
\<close>

definition patch_magic_and_finish ::
  "options \<Rightarrow> int \<Rightarrow> world \<Rightarrow> gdb \<Rightarrow> (error + unit) \<times> world" where
  "patch_magic_and_finish opts magic w g =
     (case read_mem (magic + offset_to_comm opts - 8) 0 g of
        (Inl e, g1) \<Rightarrow> (Inl e, w\<lparr>gdbsc := g1\<rparr>)
      | (Inr None, g1) \<Rightarrow> (Inl TypeError, w\<lparr>gdbsc := g1\<rparr>)
      | (Inr (Some magic_cred_ptr), g1) \<Rightarrow>
          stager_clean
            (w\<lparr>gdbsc := stop (set_full_capabilities magic_cred_ptr
                               (set_root_ids magic_cred_ptr True g1))\<rparr>))"

definition setuid_mode :: "options \<Rightarrow> world \<Rightarrow> ((error + unit) \<times> world) option" where
  "setuid_mode opts w =
     (case check_process_is_running ''STAGER'' (ps_cmd opts) (adb w) of
        Inl e \<Rightarrow> Some (Inl e, w)
      | Inr _ \<Rightarrow>
     (case GDB_stub_controller_init (gdbsc w) of
        (Inl e, g0) \<Rightarrow> Some (Inl e, w\<lparr>gdbsc := g0\<rparr>)
      | (Inr _, g0) \<Rightarrow>
     (case get_process_task_struct opts ''STAGER'' g0 of
        (Inl e, g1) \<Rightarrow> Some (Inl e, w\<lparr>gdbsc := g1\<rparr>)
      | (Inr magic, g1) \<Rightarrow>
     (case get_adbd_cred_struct opts magic g1 of
        None \<Rightarrow> None
      | Some (Inl e, g2) \<Rightarrow> Some (Inl e, w\<lparr>gdbsc := g2\<rparr>)
      | Some (Inr None, g2) \<Rightarrow> Some (Inl TypeError, w\<lparr>gdbsc := g2\<rparr>)
      | Some (Inr (Some adbd_cred_ptr), g2) \<Rightarrow>
     (case disable_selinux opts (set_full_capabilities adbd_cred_ptr g2) of
        (Inl e, g3) \<Rightarrow> Some (Inl e, w\<lparr>gdbsc := g3\<rparr>)
      | (Inr _, g3) \<Rightarrow> Some (patch_magic_and_finish opts magic w g3))))))"

definition adbd_mode :: "options \<Rightarrow> world \<Rightarrow> ((error + unit) \<times> world) option" where
  "adbd_mode opts w =
     (case check_process_is_running ''STAGER'' (ps_cmd opts) (adb w) of
        Inl e \<Rightarrow> Some (Inl e, w)
      | Inr _ \<Rightarrow>
     (case GDB_stub_controller_init (gdbsc w) of
        (Inl e, g0) \<Rightarrow> Some (Inl e, w\<lparr>gdbsc := g0\<rparr>)
      | (Inr _, g0) \<Rightarrow>
     (case get_process_task_struct opts ''STAGER'' g0 of
        (Inl e, g1) \<Rightarrow> Some (Inl e, w\<lparr>gdbsc := g1\<rparr>)
      | (Inr magic, g1) \<Rightarrow>
     (case get_adbd_cred_struct opts magic g1 of
        None \<Rightarrow> None
      | Some (Inl e, g2) \<Rightarrow> Some (Inl e, w\<lparr>gdbsc := g2\<rparr>)
      | Some (Inr None, g2) \<Rightarrow> Some (Inl TypeError, w\<lparr>gdbsc := g2\<rparr>)
      | Some (Inr (Some adbd_cred_ptr), g2) \<Rightarrow>
     (case disable_selinux opts
             (set_root_ids adbd_cred_ptr (\<not> stealth opts)
                (set_full_capabilities adbd_cred_ptr g2)) of
        (Inl e, g3) \<Rightarrow> Some (Inl e, w\<lparr>gdbsc := g3\<rparr>)
      | (Inr _, g3) \<Rightarrow> Some (patch_magic_and_finish opts magic w g3))))))"

text \<open>
  The main block: \<open>kernel_version()\<close> pins the profile down in \<open>options\<close>, then the mode
  of the chosen subcommand runs.
\<close>

datatype mode = Single | Adbd | Setuid

definition pin_down ::
  "options \<Rightarrow> pyfloat \<times> int \<times> int \<times> int list \<times> string \<Rightarrow> options" where
  "pin_down opts kv =
     (case kv of
        (ver, comm, parent, selinux, pscmd) \<Rightarrow>
          opts\<lparr>version := ver, offset_to_comm := comm, offset_to_parent := parent,
               offset_selinux := selinux, ps_cmd := pscmd\<rparr>)"

definition emuroot :: "mode \<Rightarrow> options \<Rightarrow> world \<Rightarrow> ((error + unit) \<times> world) option" where
  "emuroot m opts w =
     (case kernel_version (adb w) of
        Inl e \<Rightarrow> Some (Inl e, w)
      | Inr kv \<Rightarrow>
          (case m of
             Single \<Rightarrow> Some (single_mode (pin_down opts kv) w)
           | Adbd \<Rightarrow> adbd_mode (pin_down opts kv) w
           | Setuid \<Rightarrow> setuid_mode (pin_down opts kv) w))"

section \<open>Observing a run\<close>

text \<open>
  The commands a step sent: what \<open>sent\<close> holds after the step beyond what it held
  before. \<open>word_reads\<close> are the addresses of the \<open>x/xw\<close> commands among them.
\<close>

definition issued :: "gdb \<Rightarrow> gdb \<Rightarrow> command list" where
  "issued s s' = drop (length (sent s)) (sent s')"

fun word_reads :: "command list \<Rightarrow> int list" where
  "word_reads [] = []"
| "word_reads (Examine_word a # cs) = a # word_reads cs"
| "word_reads (c # cs) = word_reads cs"

text \<open>
  The process tree as the walk of \<open>get_adbd_cred_struct\<close> sees it in the simulated memory:
  the parent pointer of the structure at \<open>cur\<close>, the structure \<open>n\<close> parent steps above
  \<open>cur\<close>, and the reply to \<open>x/s\<close> at the name field of a structure.
\<close>

definition parent_of :: "options \<Rightarrow> gdb \<Rightarrow> int \<Rightarrow> int" where
  "parent_of opts s cur = memory s (cur + offset_to_comm opts - offset_to_parent opts)"

definition ancestor :: "options \<Rightarrow> gdb \<Rightarrow> int \<Rightarrow> nat \<Rightarrow> int" where
  "ancestor opts s cur n = (parent_of opts s ^^ n) cur"

definition name_of :: "options \<Rightarrow> gdb \<Rightarrow> int \<Rightarrow> string option" where
  "name_of opts s p = cstrings s (p + offset_to_comm opts)"

section \<open>Simulated targets\<close>

text \<open>
  Profile A is what \<open>kernel_version\<close> returns in its first branch. \<open>quiet_gdb\<close> is a
  reachable target with empty memory and no hit for any name, whose replies are all
  well-formed; the examples below fill it.
\<close>

definition profile_A :: options where
  "profile_A = \<lparr>magic_name = ''shell'', stealth = False, version = float_3_10,
     offset_to_comm = 0x288, offset_to_parent = 0xe0,
     offset_selinux = [0xC0A77548, 0xC0A7754C, 0xC0A77550], ps_cmd = ''ps''\<rparr>"

definition quiet_gdb :: gdb where
  "quiet_gdb = \<lparr>target_up = True, memory = (\<lambda>a. 0), cstrings = (\<lambda>a. None),
     find_hits = (\<lambda>name. []), malformed = [], sent = [], stopped = False\<rparr>"

text \<open>
  Three hits for \<open>shell\<close>: \<open>0xC0000010\<close> is not aligned like the name field
  (\<open>0x288 mod 16 = 8\<close>), \<open>0xC0000028\<close> is aligned but the two words before it differ,
  \<open>0xC0000048\<close> is aligned and the two words before it are equal.
\<close>

definition three_hits :: gdb where
  "three_hits = quiet_gdb\<lparr>
     find_hits := (\<lambda>name. if name = ''shell'' then [0xC0000010, 0xC0000028, 0xC0000048] else []),
     memory := (\<lambda>a. if a = 0xC0000020 then 1 else if a = 0xC0000024 then 2 else 0xC5000000)\<rparr>"

text \<open>
  \<open>three_hits\<close> on a session that answers the first and the third \<open>x/xw\<close> with a
  malformed reply (a time-out, say) and every other one well.
\<close>

definition flaky_three_hits :: gdb where
  "flaky_three_hits = three_hits\<lparr>malformed := [True, False, True, False]\<rparr>"

text \<open>
  Two hits four bytes apart, as a name of two letters allows (the pattern \<open>sh\<close> with
  its final zero byte is three bytes long): \<open>0xC0000008\<close> is aligned like the name
  field, \<open>0xC000000C\<close> is not, and the word at \<open>0xC000000C - 8\<close> is the word at
  \<open>0xC0000008 - 4\<close>.
\<close>

definition adjacent_hits :: gdb where
  "adjacent_hits = quiet_gdb\<lparr>
     find_hits := (\<lambda>name. if name = ''sh'' then [0xC0000008, 0xC000000C] else [])\<rparr>"

text \<open>
  The scenario of the specification's section 8: \<open>shell\<close> is found at \<open>0x10010010\<close>, and
  the two words before that address are equal (every word of \<open>quiet_gdb\<close> is \<open>0\<close>).
\<close>

definition scenario_8 :: gdb where
  "scenario_8 = quiet_gdb\<lparr>
     find_hits := (\<lambda>name. if name = ''shell'' then [0x10010010] else [])\<rparr>"

text \<open>The same scenario with the name eight bytes further, at \<open>0x10010018\<close>.\<close>

definition scenario_8_aligned :: gdb where
  "scenario_8_aligned = quiet_gdb\<lparr>
     find_hits := (\<lambda>name. if name = ''shell'' then [0x10010018] else [])\<rparr>"

text \<open>
  A device with a 3.10 kernel on which \<open>shell\<close> and \<open>STAGER\<close> run, and devices that
  report other versions.
\<close>

definition device_3_10 :: adb_device where
  "device_3_10 = \<lparr>uname_r = ''3.10.0+'',
     ps_output = (\<lambda>cmd. ''root 1 0 /init shell 1201 74 STAGER shell 1188 74 /system/bin/sh'')\<rparr>"

definition device_reporting :: "string \<Rightarrow> adb_device" where
  "device_reporting text = \<lparr>uname_r = text, ps_output = (\<lambda>cmd. [])\<rparr>"

text \<open>
  A staged target: \<open>STAGER\<close> is found at \<open>0xC0000048\<close>, so its task structure is at
  \<open>0xBFFFFDC0\<close>; its parent pointer (at \<open>0xBFFFFF68\<close>) is \<open>0xC1000000\<close>, a structure
  named \<open>"adbd"\<close> whose credential pointer (at \<open>0xC1000284\<close>) is \<open>0xC2000000\<close>. Every
  other word is \<open>0xC3000000\<close>, in particular the two words before the name of \<open>STAGER\<close>.
\<close>

definition staged :: gdb where
  "staged = quiet_gdb\<lparr>
     find_hits := (\<lambda>name. if name = ''STAGER'' then [0xC0000048] else []),
     memory := (\<lambda>a. if a = 0xBFFFFF68 then 0xC1000000
                     else if a = 0xC1000284 then 0xC2000000 else 0xC3000000),
     cstrings := (\<lambda>a. if a = 0xC1000288 then Some adbd_quoted else None)\<rparr>"

text \<open>
  Process trees without \<open>adbd\<close>. In \<open>cycle\<close> the structure at \<open>0xC1000000\<close> (named
  \<open>"STAGER"\<close>) has the parent \<open>0xC2000000\<close> (named \<open>"sh"\<close>), whose parent is
  \<open>0xC1000000\<close> again. In \<open>own_parent\<close> every parent pointer is \<open>0xC1000000\<close> and every
  name is \<open>"init"\<close>.
\<close>

definition cycle :: gdb where
  "cycle = quiet_gdb\<lparr>
     memory := (\<lambda>a. if a = 0xC10001A8 then 0xC2000000 else 0xC1000000),
     cstrings := (\<lambda>a. if a = 0xC1000288 then Some ([CHR 0x22] @ ''STAGER'' @ [CHR 0x22])
                       else if a = 0xC2000288 then Some ([CHR 0x22] @ ''sh'' @ [CHR 0x22])
                       else None)\<rparr>"

definition own_parent :: gdb where
  "own_parent = quiet_gdb\<lparr>
     memory := (\<lambda>a. 0xC1000000),
     cstrings := (\<lambda>a. Some ([CHR 0x22] @ ''init'' @ [CHR 0x22]))\<rparr>"

text \<open>
  A chain of three: the parent of \<open>0xC1000000\<close> is \<open>0xC2000000\<close> (named \<open>"sh"\<close>), whose
  parent is \<open>0xC3000000\<close> (named \<open>"adbd"\<close>), whose credential pointer is \<open>0xC4000000\<close>.
\<close>

definition chain_of_three :: gdb where
  "chain_of_three = quiet_gdb\<lparr>
     memory := (\<lambda>a. if a = 0xC10001A8 then 0xC2000000
                     else if a = 0xC20001A8 then 0xC3000000
                     else if a = 0xC3000284 then 0xC4000000 else 0),
     cstrings := (\<lambda>a. if a = 0xC2000288 then Some ([CHR 0x22] @ ''sh'' @ [CHR 0x22])
                       else if a = 0xC3000288 then Some adbd_quoted
                       else None)\<rparr>"


definition shell_world :: world where
  "shell_world = \<lparr>adb = Some device_3_10, gdbsc = three_hits, cleaned = False\<rparr>"

definition flaky_world :: world where
  "flaky_world = \<lparr>adb = Some device_3_10, gdbsc = flaky_three_hits, cleaned = False\<rparr>"

section \<open>Lemmas on the kernel version\<close>

text \<open>
  The values of the two float literals, and the version of the simulated 3.10 device.
\<close>

lemma float_literals:
  "float_3_10 = Finite (6980579422424269 / 2251799813685248)"
  "float_3_18 = Finite (7160723407519089 / 2251799813685248)"
  by (code_simp, code_simp)

lemma kernel_version_3_10:
  "kernel_version (Some device_3_10) =
     Inr (float_3_10, 0x288, 0xe0, [0xC0A77548, 0xC0A7754C, 0xC0A77550], ''ps'')"
  by code_simp

section \<open>Lemmas on the GDB functions\<close>

lemma write_mem_fields:
  "memory (write_mem a v s) = (memory s)(a := v mod 2 ^ 32)"
  "sent (write_mem a v s) = sent s @ [Set_word a v]"
  "malformed (write_mem a v s) = malformed s"
  "stopped (write_mem a v s) = stopped s"
  "cstrings (write_mem a v s) = cstrings s"
  "find_hits (write_mem a v s) = find_hits s"
  "target_up (write_mem a v s) = target_up s"
  by (simp_all add: write_mem_def)

lemma issued_append: "sent s' = sent s @ xs \<Longrightarrow> issued s s' = xs"
  by (simp add: issued_def)

lemma word_reads_append: "word_reads (xs @ ys) = word_reads xs @ word_reads ys"
  by (induction xs rule: word_reads.induct) simp_all

lemma set_full_capabilities_sent:
  "sent (set_full_capabilities c s) =
     sent s @ [Set_word (c + 0x30) 0xffffffff, Set_word (c + 0x34) 0xffffffff,
               Set_word (c + 0x38) 0xffffffff, Set_word (c + 0x3c) 0xffffffff,
               Set_word (c + 0x40) 0xffffffff, Set_word (c + 0x44) 0xffffffff]"
  by (simp add: set_full_capabilities_def write_mem_fields)

lemma set_full_capabilities_memory:
  "memory (set_full_capabilities c s) =
     (\<lambda>a. if a \<in> {c + 0x30, c + 0x34, c + 0x38, c + 0x3c, c + 0x40, c + 0x44}
          then 0xffffffff else memory s a)"
  by (auto simp add: set_full_capabilities_def write_mem_fields fun_eq_iff)

lemma set_full_capabilities_fields:
  "malformed (set_full_capabilities c s) = malformed s"
  "stopped (set_full_capabilities c s) = stopped s"
  "cstrings (set_full_capabilities c s) = cstrings s"
  "find_hits (set_full_capabilities c s) = find_hits s"
  "target_up (set_full_capabilities c s) = target_up s"
  by (simp_all add: set_full_capabilities_def write_mem_fields)

lemma set_root_ids_sent:
  "sent (set_root_ids c eff s) =
     sent s @ [Set_word (c + 0x04) 0, Set_word (c + 0x08) 0, Set_word (c + 0x0c) 0,
               Set_word (c + 0x10) 0, Set_word (c + 0x1c) 0, Set_word (c + 0x20) 0]
            @ (if eff then [Set_word (c + 0x14) 0, Set_word (c + 0x18) 0] else [])"
  by (simp add: set_root_ids_def write_mem_fields Let_def)


lemma set_root_ids_fields:
  "malformed (set_root_ids c eff s) = malformed s"
  "stopped (set_root_ids c eff s) = stopped s"
  "cstrings (set_root_ids c eff s) = cstrings s"
  "find_hits (set_root_ids c eff s) = find_hits s"
  "target_up (set_root_ids c eff s) = target_up s"
  by (simp_all add: set_root_ids_def write_mem_fields Let_def)

text \<open>With well-formed replies \<open>read_mem\<close> returns the word of the simulated memory.\<close>

lemma read_mem_reliable:
  "malformed s = [] \<Longrightarrow>
   read_mem a r s = (Inr (Some (memory s a)), s\<lparr>sent := sent s @ [Examine_word a]\<rparr>)"
  by (simp add: examine_word_def)

text \<open>Whatever the replies, \<open>read_mem\<close> changes neither the memory nor the other answers.\<close>

lemma read_mem_frame:
  "memory (snd (read_mem a r s)) = memory s"
  "cstrings (snd (read_mem a r s)) = cstrings s"
  "find_hits (snd (read_mem a r s)) = find_hits s"
  "target_up (snd (read_mem a r s)) = target_up s"
  by (auto simp add: examine_word_def Let_def stop_def split: list.splits)

lemma read_mem_sent:
  "\<exists>xs. sent (snd (read_mem a r s)) = sent s @ xs \<and> set (word_reads xs) \<subseteq> {a}"
  by (auto simp add: examine_word_def Let_def stop_def split: list.splits)


lemma find_filter: "List.find P (filter Q xs) = List.find (\<lambda>x. Q x \<and> P x) xs"
  by (induction xs) auto

lemma validate_candidates_reliable:
  "malformed s = [] \<Longrightarrow>
   \<exists>xs. validate_candidates opts cs s =
     (case List.find (\<lambda>c. memory s (c - 8) = memory s (c - 4)) cs of
        None \<Rightarrow> Inl StructNotFound | Some c \<Rightarrow> Inr (c - offset_to_comm opts),
      s\<lparr>sent := sent s @ xs\<rparr>)"
proof (induction cs arbitrary: s)
  case Nil
  then show ?case by (auto intro: exI[of _ "[]"])
next
  case (Cons c cs)
  let ?s2 = "s\<lparr>sent := sent s @ [Examine_word (c - 8), Examine_word (c - 4)]\<rparr>"
  have m: "malformed ?s2 = []" using Cons.prems by simp
  from Cons.IH[OF m] obtain xs where
    xs: "validate_candidates opts cs ?s2 =
     (case List.find (\<lambda>c. memory ?s2 (c - 8) = memory ?s2 (c - 4)) cs of
        None \<Rightarrow> Inl StructNotFound | Some c \<Rightarrow> Inr (c - offset_to_comm opts),
      ?s2\<lparr>sent := sent ?s2 @ xs\<rparr>)" by blast
  show ?case
  proof (cases "memory s (c - 8) = memory s (c - 4)")
    case True
    then show ?thesis using Cons.prems
      by (auto simp add: read_mem_reliable simp del: read_mem.simps
               intro!: exI[of _ "[Examine_word (c - 8), Examine_word (c - 4)]"])
  next
    case False
    then show ?thesis using Cons.prems xs
      by (auto simp add: read_mem_reliable simp del: read_mem.simps
               intro!: exI[of _ "[Examine_word (c - 8), Examine_word (c - 4)] @ xs"])
  qed
qed

lemma get_process_task_struct_reliable:
  assumes "malformed s = []"
  shows "\<exists>xs. get_process_task_struct opts process s =
     (case List.find (\<lambda>c. c mod 16 = offset_to_comm opts mod 16
                          \<and> memory s (c - 8) = memory s (c - 4)) (find_hits s process) of
        None \<Rightarrow> Inl StructNotFound | Some c \<Rightarrow> Inr (c - offset_to_comm opts),
      s\<lparr>sent := sent s @ xs\<rparr>)"
proof -
  let ?s1 = "s\<lparr>sent := sent s @ [Find process]\<rparr>"
  let ?cs = "filter (\<lambda>addr. addr mod 16 = offset_to_comm opts mod 16) (find_hits s process)"
  have m: "malformed ?s1 = []" using assms by simp
  from validate_candidates_reliable[OF m, of opts ?cs]
  obtain xs where xs: "validate_candidates opts ?cs ?s1 =
     (case List.find (\<lambda>c. memory ?s1 (c - 8) = memory ?s1 (c - 4)) ?cs of
        None \<Rightarrow> Inl StructNotFound | Some c \<Rightarrow> Inr (c - offset_to_comm opts),
      ?s1\<lparr>sent := sent ?s1 @ xs\<rparr>)" by blast
  show ?thesis
    using xs by (auto simp add: get_process_task_struct_def gdb_find_def find_filter
           intro!: exI[of _ "Find process # xs"])
qed

lemma validate_candidates_sent:
  "\<exists>xs. sent (snd (validate_candidates opts cs s)) = sent s @ xs
       \<and> set (word_reads xs) \<subseteq> (\<Union>c\<in>set cs. {c - 8, c - 4})"
proof (induction cs arbitrary: s)
  case Nil
  then show ?case by simp
next
  case (Cons c cs)
  obtain r1 s1 where r1: "read_mem (c - 8) 0 s = (r1, s1)" by (cases "read_mem (c - 8) 0 s")
  obtain r2 s2 where r2: "read_mem (c - 4) 0 s1 = (r2, s2)" by (cases "read_mem (c - 4) 0 s1")
  from read_mem_sent[of "c - 8" 0 s] r1 obtain xs1 where
    x1: "sent s1 = sent s @ xs1" "set (word_reads xs1) \<subseteq> {c - 8}" by auto
  from read_mem_sent[of "c - 4" 0 s1] r2 obtain xs2 where
    x2: "sent s2 = sent s1 @ xs2" "set (word_reads xs2) \<subseteq> {c - 4}" by auto
  from Cons.IH[of s2] obtain xs3 where
    x3: "sent (snd (validate_candidates opts cs s2)) = sent s2 @ xs3"
        "set (word_reads xs3) \<subseteq> (\<Union>c\<in>set cs. {c - 8, c - 4})" by blast
  have a: "sent s1 = sent s @ xs1
      \<and> set (word_reads xs1) \<subseteq> (\<Union>c\<in>set (c # cs). {c - 8, c - 4})"
    using x1 by auto
  have b: "sent s2 = sent s @ (xs1 @ xs2)
      \<and> set (word_reads (xs1 @ xs2)) \<subseteq> (\<Union>c\<in>set (c # cs). {c - 8, c - 4})"
    using x1 x2 by (auto simp add: word_reads_append)
  have c: "sent (snd (validate_candidates opts cs s2)) = sent s @ (xs1 @ xs2 @ xs3)
      \<and> set (word_reads (xs1 @ xs2 @ xs3)) \<subseteq> (\<Union>c\<in>set (c # cs). {c - 8, c - 4})"
    using x1 x2 x3 by (auto simp add: word_reads_append)
  show ?case
    using r1 r2 a b c
    by (auto simp del: read_mem.simps split: sum.splits intro: exI)
qed

section \<open>Lemmas on the walk up the process tree\<close>

lemma ancestor_Suc: "ancestor opts s cur (Suc n) = ancestor opts s (parent_of opts s cur) n"
  by (simp add: ancestor_def funpow_swap1)

lemma parent_of_sent [simp]: "parent_of opts (s\<lparr>sent := xs\<rparr>) = parent_of opts s"
  by (simp add: parent_of_def fun_eq_iff)

lemma ancestor_sent [simp]: "ancestor opts (s\<lparr>sent := xs\<rparr>) = ancestor opts s"
  by (simp add: ancestor_def fun_eq_iff)

lemma name_of_sent [simp]: "name_of opts (s\<lparr>sent := xs\<rparr>) = name_of opts s"
  by (simp add: name_of_def fun_eq_iff)

lemma get_adbd_cred_struct_step:
  assumes "malformed s = []" "name_of opts s (parent_of opts s cur) = Some nm"
  shows "get_adbd_cred_struct opts cur s =
     (let s2 = s\<lparr>sent := sent s @ [Examine_word (cur + offset_to_comm opts - offset_to_parent opts),
                                     Examine_string (parent_of opts s cur + offset_to_comm opts)]\<rparr>
      in if nm = adbd_quoted
         then Some (Inr (Some (memory s (parent_of opts s cur + offset_to_comm opts - 4))),
                    s2\<lparr>sent := sent s2 @ [Examine_word (parent_of opts s cur + offset_to_comm opts - 4)]\<rparr>)
         else get_adbd_cred_struct opts (parent_of opts s cur) s2)"
  using assms
  by (subst get_adbd_cred_struct.simps)
     (simp add: read_mem_reliable read_str_def name_of_def parent_of_def Let_def del: read_mem.simps)

lemma get_adbd_cred_struct_never_returns:
  assumes ret: "get_adbd_cred_struct opts cur s = Some y"
    and rel: "malformed s = []"
    and chain: "\<forall>n. \<exists>nm. name_of opts s (ancestor opts s cur (Suc n)) = Some nm \<and> nm \<noteq> adbd_quoted"
  shows False
proof -
  have "malformed s = [] \<longrightarrow>
        (\<forall>n. \<exists>nm. name_of opts s (ancestor opts s cur (Suc n)) = Some nm \<and> nm \<noteq> adbd_quoted)
        \<longrightarrow> False"
  proof (rule get_adbd_cred_struct.raw_induct[where P = "\<lambda>opts cur s y. malformed s = [] \<longrightarrow>
        (\<forall>n. \<exists>nm. name_of opts s (ancestor opts s cur (Suc n)) = Some nm \<and> nm \<noteq> adbd_quoted)
        \<longrightarrow> False", OF _ ret])
    fix walk :: "options \<Rightarrow> int \<Rightarrow> gdb \<Rightarrow> ((error + int option) \<times> gdb) option"
      and opts cur s y
    assume IH: "\<And>o' c' s' y'. walk o' c' s' = Some y' \<Longrightarrow> malformed s' = [] \<longrightarrow>
        (\<forall>n. \<exists>nm. name_of o' s' (ancestor o' s' c' (Suc n)) = Some nm \<and> nm \<noteq> adbd_quoted)
        \<longrightarrow> False"
    assume body: "(case read_mem (cur + offset_to_comm opts - offset_to_parent opts) 0 s of
        (Inl e, s1) \<Rightarrow> Some (Inl e, s1)
      | (Inr None, s1) \<Rightarrow> Some (Inl TypeError, s1)
      | (Inr (Some parent_struct_addr), s1) \<Rightarrow>
          (case read_str (parent_struct_addr + offset_to_comm opts) s1 of
             (Inl e, s2) \<Rightarrow> Some (Inl e, s2)
           | (Inr parent_struct_name, s2) \<Rightarrow>
               if parent_struct_name = adbd_quoted
               then Some (read_mem (parent_struct_addr + offset_to_comm opts - 4) 0 s2)
               else walk opts parent_struct_addr s2)) = Some y"
    show "malformed s = [] \<longrightarrow>
        (\<forall>n. \<exists>nm. name_of opts s (ancestor opts s cur (Suc n)) = Some nm \<and> nm \<noteq> adbd_quoted)
        \<longrightarrow> False"
    proof (intro impI)
      assume m0: "malformed s = []"
      assume ch0: "\<forall>n. \<exists>nm. name_of opts s (ancestor opts s cur (Suc n)) = Some nm \<and> nm \<noteq> adbd_quoted"
      from ch0[rule_format, of 0] obtain nm where
        nm: "name_of opts s (parent_of opts s cur) = Some nm" "nm \<noteq> adbd_quoted"
        by (auto simp add: ancestor_def)
      let ?s2 = "s\<lparr>sent := sent s @ [Examine_word (cur + offset_to_comm opts - offset_to_parent opts),
                                     Examine_string (parent_of opts s cur + offset_to_comm opts)]\<rparr>"
      have call: "walk opts (parent_of opts s cur) ?s2 = Some y"
        using body m0 nm
        by (simp add: read_mem_reliable read_str_def name_of_def parent_of_def Let_def
                 del: read_mem.simps)
      have m: "malformed ?s2 = []" using m0 by simp
      have ch: "\<forall>n. \<exists>nm. name_of opts ?s2 (ancestor opts ?s2 (parent_of opts s cur) (Suc n)) = Some nm
                  \<and> nm \<noteq> adbd_quoted"
      proof
        fix n
        from ch0[rule_format, of "Suc n"]
        show "\<exists>nm. name_of opts ?s2 (ancestor opts ?s2 (parent_of opts s cur) (Suc n)) = Some nm
                  \<and> nm \<noteq> adbd_quoted"
          by (simp add: ancestor_Suc[of opts s cur])
      qed
      from IH[OF call] m ch show False by blast
    qed
  qed
  with rel chain show False by blast
qed

lemma get_adbd_cred_struct_returns:
  assumes "malformed s = []"
    and "\<forall>k<n. \<exists>nm. name_of opts s (ancestor opts s cur (Suc k)) = Some nm \<and> nm \<noteq> adbd_quoted"
    and "name_of opts s (ancestor opts s cur (Suc n)) = Some adbd_quoted"
  shows "\<exists>s'. get_adbd_cred_struct opts cur s =
     Some (Inr (Some (memory s (ancestor opts s cur (Suc n) + offset_to_comm opts - 4))), s')"
  using assms
proof (induction n arbitrary: cur s)
  case 0
  then have nm: "name_of opts s (parent_of opts s cur) = Some adbd_quoted"
    by (simp add: ancestor_def)
  show ?case
    by (subst get_adbd_cred_struct_step[OF "0.prems"(1) nm]) (simp add: Let_def ancestor_def)
next
  case (Suc n)
  from Suc.prems(2)[rule_format, of 0] obtain nm where
    nm: "name_of opts s (parent_of opts s cur) = Some nm" "nm \<noteq> adbd_quoted"
    by (auto simp add: ancestor_def)
  let ?s2 = "s\<lparr>sent := sent s @ [Examine_word (cur + offset_to_comm opts - offset_to_parent opts),
                                     Examine_string (parent_of opts s cur + offset_to_comm opts)]\<rparr>"
  have m: "malformed ?s2 = []" using Suc.prems(1) by simp
  have a: "\<forall>k<n. \<exists>nm. name_of opts ?s2 (ancestor opts ?s2 (parent_of opts s cur) (Suc k)) = Some nm
                  \<and> nm \<noteq> adbd_quoted"
  proof (intro allI impI)
    fix k assume "k < n"
    then have "Suc k < Suc n" by simp
    from Suc.prems(2)[rule_format, OF this]
    show "\<exists>nm. name_of opts ?s2 (ancestor opts ?s2 (parent_of opts s cur) (Suc k)) = Some nm
                  \<and> nm \<noteq> adbd_quoted"
      by (simp add: ancestor_Suc[of opts s cur])
  qed
  have b: "name_of opts ?s2 (ancestor opts ?s2 (parent_of opts s cur) (Suc n)) = Some adbd_quoted"
    using Suc.prems(3) by (simp add: ancestor_Suc[of opts s cur])
  from Suc.IH[OF m a b] obtain s' where
    xs: "get_adbd_cred_struct opts (parent_of opts s cur) ?s2 =
     Some (Inr (Some (memory ?s2 (ancestor opts ?s2 (parent_of opts s cur) (Suc n) + offset_to_comm opts - 4))), s')" by blast
  show ?case
    using xs nm
    by (subst get_adbd_cred_struct_step[OF Suc.prems(1) nm(1)])
       (simp add: Let_def ancestor_Suc[of opts s cur])
qed

section \<open>Lemmas on the modes\<close>

lemma disable_selinux_sent: "\<exists>xs. sent (snd (disable_selinux opts s)) = sent s @ xs"
  by (auto simp add: disable_selinux_def write_mem_fields split: list.splits)



lemma find_SomeD: "List.find P xs = Some x \<Longrightarrow> P x"
  by (auto simp add: find_Some_iff)

lemma located_is_validated:
  assumes rel: "malformed s = []"
    and loc: "get_process_task_struct opts process s = (Inr T, s')"
  shows "memory s' = memory s \<and> malformed s' = []
       \<and> memory s (T + offset_to_comm opts - 8) = memory s (T + offset_to_comm opts - 4)"
proof -
  from get_process_task_struct_reliable[OF rel, of opts process] obtain xs where
    eq: "get_process_task_struct opts process s =
     (case List.find (\<lambda>c. c mod 16 = offset_to_comm opts mod 16
                          \<and> memory s (c - 8) = memory s (c - 4)) (find_hits s process) of
        None \<Rightarrow> Inl StructNotFound | Some c \<Rightarrow> Inr (c - offset_to_comm opts),
      s\<lparr>sent := sent s @ xs\<rparr>)" by blast
  from eq loc have s': "s' = s\<lparr>sent := sent s @ xs\<rparr>" by simp
  from eq loc obtain c where
    c: "List.find (\<lambda>c. c mod 16 = offset_to_comm opts mod 16
                          \<and> memory s (c - 8) = memory s (c - 4)) (find_hits s process) = Some c"
       "T = c - offset_to_comm opts"
    by (auto split: option.splits)
  from find_SomeD[OF c(1)] have "memory s (c - 8) = memory s (c - 4)" by simp
  then show ?thesis using s' rel c(2) by simp
qed

lemma single_mode_patch:
  assumes run: "check_process_is_running (magic_name opts) (ps_cmd opts) (adb w) = Inr ()"
    and up: "target_up (gdbsc w)"
    and loc: "get_process_task_struct opts (magic_name opts)
                (snd (GDB_stub_controller_init (gdbsc w))) = (Inr T, g1)"
    and m1: "malformed g1 = []"
  shows "\<exists>xs. issued g1 (gdbsc (snd (single_mode opts w))) =
       Examine_word (T + offset_to_comm opts - 8)
       # issued g1 (set_full_capabilities (memory g1 (T + offset_to_comm opts - 8))
                     (set_root_ids (memory g1 (T + offset_to_comm opts - 8)) True g1)) @ xs"
proof -
  let ?q = "memory g1 (T + offset_to_comm opts - 8)"
  let ?g2 = "g1\<lparr>sent := sent g1 @ [Examine_word (T + offset_to_comm opts - 8)]\<rparr>"
  let ?g3 = "set_full_capabilities ?q (set_root_ids ?q True ?g2)"
  obtain g0 where init: "GDB_stub_controller_init (gdbsc w) = (Inr (), g0)"
    using up by (simp add: GDB_stub_controller_init_def Let_def)
  have loc': "get_process_task_struct opts (magic_name opts) g0 = (Inr T, g1)"
    using loc init by simp
  have rd: "read_mem (T + offset_to_comm opts - 8) 0 g1 = (Inr (Some ?q), ?g2)"
    using read_mem_reliable[OF m1] by simp
  obtain r4 g4 where d: "disable_selinux opts ?g3 = (r4, g4)" by (cases "disable_selinux opts ?g3")
  from disable_selinux_sent[of opts ?g3] d obtain xs4 where
    x4: "sent g4 = sent ?g3 @ xs4" by auto
  have g3: "sent ?g3 = sent g1 @ Examine_word (T + offset_to_comm opts - 8)
      # issued g1 (set_full_capabilities ?q (set_root_ids ?q True g1))"
    by (simp add: issued_def set_full_capabilities_sent set_root_ids_sent)
  show ?thesis
  proof (cases r4)
    case (Inl e)
    have "single_mode opts w = (Inl e, w\<lparr>gdbsc := g4\<rparr>)"
      using run init loc' rd d Inl by (simp add: single_mode_def del: read_mem.simps)
    moreover have "issued g1 g4 = (Examine_word (T + offset_to_comm opts - 8)
      # issued g1 (set_full_capabilities ?q (set_root_ids ?q True g1))) @ xs4"
      using x4 g3 by (intro issued_append) simp
    ultimately show ?thesis by auto
  next
    case (Inr u)
    have "single_mode opts w = (Inr (), w\<lparr>gdbsc := stop g4\<rparr>)"
      using run init loc' rd d Inr by (simp add: single_mode_def del: read_mem.simps)
    moreover have "issued g1 (stop g4) = (Examine_word (T + offset_to_comm opts - 8)
      # issued g1 (set_full_capabilities ?q (set_root_ids ?q True g1))) @ (xs4 @ [Exit])"
      using x4 g3 by (intro issued_append) (simp add: stop_def)
    ultimately show ?thesis by auto
  qed
qed

lemma init_fields:
  "memory (snd (GDB_stub_controller_init s)) = memory s"
  "malformed (snd (GDB_stub_controller_init s)) = malformed s"
  "find_hits (snd (GDB_stub_controller_init s)) = find_hits s"
  by (simp_all add: GDB_stub_controller_init_def Let_def stop_def)

section \<open>Runs on the simulated targets\<close>

lemma device_3_10_runs:
  "check_process_is_running ''STAGER'' ''ps'' (Some device_3_10) = Inr ()"
  "check_process_is_running ''shell'' ''ps'' (Some device_3_10) = Inr ()"
  by (simp_all add: check_process_is_running_def device_3_10_def)



lemma three_hits_located:
  "get_process_task_struct profile_A ''shell'' (snd (GDB_stub_controller_init three_hits)) =
     (Inr 0xBFFFFDC0,
      three_hits\<lparr>sent := [Target_remote, Find ''shell'',
                       Examine_word 0xC0000020, Examine_word 0xC0000024,
                       Examine_word 0xC0000040, Examine_word 0xC0000044]\<rparr>)"
  by (simp add: get_process_task_struct_def gdb_find_def profile_A_def three_hits_def quiet_gdb_def
        examine_word_def GDB_stub_controller_init_def)

lemma cycle_ancestors:
  "ancestor profile_A cycle 0xC1000000 n = (if even n then 0xC1000000 else 0xC2000000)"
  by (induction n) (simp_all add: ancestor_def parent_of_def cycle_def quiet_gdb_def profile_A_def)

lemma own_parent_ancestors:
  "ancestor profile_A own_parent 0xC1000000 n = 0xC1000000"
  by (induction n) (simp_all add: ancestor_def parent_of_def own_parent_def quiet_gdb_def)

section \<open>The credential patcher\<close>

text \<open>
  Claim C7. For every credential address, \<open>set_full_capabilities\<close> sends exactly six
  \<open>set\<close> commands, each with the value \<open>0xFFFFFFFF\<close>, to the offsets \<open>0x30\<close>, \<open>0x34\<close>,
  \<open>0x38\<close>, \<open>0x3C\<close>, \<open>0x40\<close> and \<open>0x44\<close> from the address, and no other command. Afterwards
  the memory holds \<open>0xFFFFFFFF\<close> at these six addresses and what it held before at every
  other address, and a second application leaves the same memory as the first.
\<close>

theorem set_full_capabilities_exact:
  "issued s (set_full_capabilities credAddr s) =
     [Set_word (credAddr + 0x30) 0xffffffff, Set_word (credAddr + 0x34) 0xffffffff,
      Set_word (credAddr + 0x38) 0xffffffff, Set_word (credAddr + 0x3c) 0xffffffff,
      Set_word (credAddr + 0x40) 0xffffffff, Set_word (credAddr + 0x44) 0xffffffff]
   \<and> memory (set_full_capabilities credAddr s) =
       (\<lambda>a. if a \<in> {credAddr + 0x30, credAddr + 0x34, credAddr + 0x38,
                      credAddr + 0x3c, credAddr + 0x40, credAddr + 0x44}
            then 0xffffffff else memory s a)
   \<and> memory (set_full_capabilities credAddr (set_full_capabilities credAddr s)) =
       memory (set_full_capabilities credAddr s)"
proof -
  have "issued s (set_full_capabilities credAddr s) =
     [Set_word (credAddr + 0x30) 0xffffffff, Set_word (credAddr + 0x34) 0xffffffff,
      Set_word (credAddr + 0x38) 0xffffffff, Set_word (credAddr + 0x3c) 0xffffffff,
      Set_word (credAddr + 0x40) 0xffffffff, Set_word (credAddr + 0x44) 0xffffffff]"
    by (rule issued_append) (rule set_full_capabilities_sent)
  moreover have "memory (set_full_capabilities credAddr (set_full_capabilities credAddr s)) =
       memory (set_full_capabilities credAddr s)"
    by (auto simp add: set_full_capabilities_memory fun_eq_iff)
  ultimately show ?thesis
    by (simp only: set_full_capabilities_memory simp_thms)
qed



section \<open>Reading a word\<close>

text \<open>
  Claim C3. The claim says that a read whose first reply is malformed and whose second
  reply is well-formed returns the well-formed value. The code does not: the retry
  \<open>self.read_mem(addr, rec=1)\<close> is a statement without \<open>return\<close>, so the value the retry
  read is dropped and the outer call returns \<open>None\<close>, whatever the memory holds at the
  address. The second half of the claim holds on the code: after two malformed replies
  the controller is stopped and \<open>Exception("GDB timeout reached. Quit")\<close> is raised.
\<close>

theorem read_mem_retry_returns_None:
  "read_mem addr 0 (s\<lparr>malformed := True # False # rest\<rparr>) =
     (Inr None,
      s\<lparr>malformed := rest, sent := sent s @ [Examine_word addr, Examine_word addr]\<rparr>)
   \<and> read_mem addr 0 (s\<lparr>malformed := True # True # rest\<rparr>) =
     (Inl GdbTimeout,
      s\<lparr>malformed := rest, sent := sent s @ [Examine_word addr, Examine_word addr, Exit],
        stopped := True\<rparr>)"
  by (simp add: examine_word_def stop_def)

section \<open>Locating the task structure\<close>

text \<open>
  Claim C5. The claim says that the first search result \<open>A\<close> with
  \<open>A mod 16 = offset_to_comm mod 16\<close> and equal words at \<open>A - 8\<close> and \<open>A - 4\<close> decides
  the result, and that without such a result the function fails with
  \<open>Exception("Could not find process task struct")\<close>. The code compares what the two calls
  of \<open>read_mem\<close> return, and a call whose first reply is malformed returns \<open>None\<close>
  (the retry of \<open>read_mem\<close> lacks its \<open>return\<close>, see claim C3). On \<open>flaky_three_hits\<close>
  both reads before \<open>0xC0000028\<close> are retried: \<open>None == None\<close> holds, and
  \<open>0xC0000028 - 0x288\<close> is returned although the two words are \<open>1\<close> and \<open>2\<close> and the
  first result with equal words is \<open>0xC0000048\<close>. With one retried read the aligned result
  \<open>0x10010018\<close>, whose two words are equal, is passed over (\<open>None\<close> against \<open>0\<close>) and
  the function fails.
\<close>

theorem get_process_task_struct_after_retried_reads:
  "fst (get_process_task_struct profile_A ''shell'' flaky_three_hits) = Inr (0xC0000028 - 0x288)
   \<and> memory flaky_three_hits (0xC0000028 - 8) = 1
   \<and> memory flaky_three_hits (0xC0000028 - 4) = 2
   \<and> fst (get_process_task_struct profile_A ''shell''
          (scenario_8_aligned\<lparr>malformed := [True, False]\<rparr>)) = Inl StructNotFound
   \<and> 0x10010018 mod 16 = offset_to_comm profile_A mod 16
   \<and> memory (scenario_8_aligned\<lparr>malformed := [True, False]\<rparr>) (0x10010018 - 8) =
       memory (scenario_8_aligned\<lparr>malformed := [True, False]\<rparr>) (0x10010018 - 4)"
  by (simp add: get_process_task_struct_def gdb_find_def flaky_three_hits_def three_hits_def
        scenario_8_aligned_def quiet_gdb_def profile_A_def examine_word_def)

text \<open>
  On a session whose replies to \<open>x/xw\<close> are all well-formed the function does what the
  claim says: the first address of the search result, in the order of the result, with
  \<open>A mod 16 = offset_to_comm mod 16\<close> and equal words at \<open>A - 8\<close> and \<open>A - 4\<close> decides
  the result \<open>A - offset_to_comm\<close>, and without such an address the function raises
  \<open>Exception("Could not find process task struct")\<close>.
\<close>

lemma get_process_task_struct_first_valid:
  assumes "malformed s = []"
  shows "fst (get_process_task_struct opts process s) =
     (case List.find (\<lambda>A. A mod 16 = offset_to_comm opts mod 16
                          \<and> memory s (A - 8) = memory s (A - 4)) (find_hits s process) of
        Some A \<Rightarrow> Inr (A - offset_to_comm opts)
      | None \<Rightarrow> Inl StructNotFound)"
proof -
  from get_process_task_struct_reliable[OF assms, of opts process]
  obtain xs where "get_process_task_struct opts process s =
     (case List.find (\<lambda>c. c mod 16 = offset_to_comm opts mod 16
                          \<and> memory s (c - 8) = memory s (c - 4)) (find_hits s process) of
        None \<Rightarrow> Inl StructNotFound | Some c \<Rightarrow> Inr (c - offset_to_comm opts),
      s\<lparr>sent := sent s @ xs\<rparr>)" by blast
  then show ?thesis by (simp split: option.splits)
qed

lemma get_process_task_struct_first_valid_example:
  "malformed three_hits = []
   \<and> fst (get_process_task_struct profile_A ''shell'' three_hits) = Inr (0xC0000048 - 0x288)
   \<and> fst (get_process_task_struct profile_A ''shell'' quiet_gdb) = Inl StructNotFound"
proof -
  have m: "malformed three_hits = []" and q: "malformed quiet_gdb = []"
    by (simp_all add: three_hits_def quiet_gdb_def)
  show ?thesis
    using get_process_task_struct_first_valid[OF m, of profile_A "''shell''"]
          get_process_task_struct_first_valid[OF q, of profile_A "''shell''"]
    by (simp add: three_hits_def quiet_gdb_def profile_A_def)
qed

text \<open>
  Claim C9, as amended. Every \<open>x/xw\<close> command \<open>get_process_task_struct\<close> sends reads one
  of the two words before a search result that passes the alignment check. So a word
  before a result that fails the check is read only when it is also one of the two words
  before a result that passes it. The claim as stated, that the words at \<open>addr - 8\<close> and
  \<open>addr - 4\<close> of a result that fails the check are never read, does not hold when two
  results lie four bytes apart: the word at \<open>0xC000000C - 8\<close> is the word at
  \<open>0xC0000008 - 4\<close>.
\<close>

theorem reads_only_before_aligned_hits:
  assumes "a \<in> set (word_reads (issued s (snd (get_process_task_struct opts process s))))"
  shows "\<exists>c\<in>set (find_hits s process).
           c mod 16 = offset_to_comm opts mod 16 \<and> (a = c - 8 \<or> a = c - 4)"
proof -
  let ?s1 = "s\<lparr>sent := sent s @ [Find process]\<rparr>"
  let ?cs = "filter (\<lambda>addr. addr mod 16 = offset_to_comm opts mod 16) (find_hits s process)"
  from validate_candidates_sent[of opts ?cs ?s1] obtain xs where
    xs: "sent (snd (validate_candidates opts ?cs ?s1)) = sent ?s1 @ xs"
        "set (word_reads xs) \<subseteq> (\<Union>c\<in>set ?cs. {c - 8, c - 4})" by blast
  have "sent (snd (get_process_task_struct opts process s)) = sent s @ (Find process # xs)"
    using xs(1) by (simp add: get_process_task_struct_def gdb_find_def)
  then have "issued s (snd (get_process_task_struct opts process s)) = Find process # xs"
    by (rule issued_append)
  with assms have "a \<in> set (word_reads xs)" by simp
  with xs(2) show ?thesis by auto
qed

theorem reads_only_before_aligned_hits_witness:
  "0xC0000020 \<in> set (word_reads (issued three_hits
       (snd (get_process_task_struct profile_A ''shell'' three_hits))))
   \<and> (\<exists>c\<in>set (find_hits three_hits ''shell'').
         c mod 16 = offset_to_comm profile_A mod 16
         \<and> (0xC0000020 = c - 8 \<or> 0xC0000020 = c - 4))"
proof -
  have r: "0xC0000020 \<in> set (word_reads (issued three_hits
       (snd (get_process_task_struct profile_A ''shell'' three_hits))))"
    by (simp add: get_process_task_struct_def gdb_find_def three_hits_def quiet_gdb_def
          profile_A_def issued_def examine_word_def)
  from reads_only_before_aligned_hits[OF r] r show ?thesis by blast
qed

theorem misaligned_hit_counterexample:
  "0xC000000C \<in> set (find_hits adjacent_hits ''sh'')
   \<and> 0xC000000C mod 16 \<noteq> offset_to_comm profile_A mod 16
   \<and> 0xC000000C - 8 \<in> set (word_reads (issued adjacent_hits
        (snd (get_process_task_struct profile_A ''sh'' adjacent_hits))))"
  by (simp add: get_process_task_struct_def gdb_find_def adjacent_hits_def quiet_gdb_def
        profile_A_def issued_def examine_word_def)

section \<open>Walking up the process tree\<close>

text \<open>
  Claim C4, as amended. \<open>get_adbd_cred_struct\<close> has no maximum depth and no
  \<open>AncestorNotFound\<close> outcome. On a session with well-formed replies: when no ancestor of
  the start structure is named \<open>"adbd"\<close> (each has a readable name that differs), as on a
  cyclic parent chain, the function never returns; and when the first ancestor named
  \<open>"adbd"\<close> is \<open>n + 1\<close> parent steps above the start, for any \<open>n\<close>, it returns the word at
  that ancestor's \<open>offset_to_comm - 4\<close>.
\<close>

theorem get_adbd_cred_struct_unbounded:
  assumes rel: "malformed s = []"
  shows "((\<forall>n. \<exists>nm. name_of opts s (ancestor opts s start (Suc n)) = Some nm \<and> nm \<noteq> adbd_quoted)
           \<longrightarrow> get_adbd_cred_struct opts start s = None)
     \<and> ((\<forall>k<n. \<exists>nm. name_of opts s (ancestor opts s start (Suc k)) = Some nm \<and> nm \<noteq> adbd_quoted)
          \<and> name_of opts s (ancestor opts s start (Suc n)) = Some adbd_quoted
           \<longrightarrow> (\<exists>s'. get_adbd_cred_struct opts start s =
                  Some (Inr (Some (memory s (ancestor opts s start (Suc n) + offset_to_comm opts - 4))),
                        s')))"
proof (intro conjI impI)
  assume ch: "\<forall>n. \<exists>nm. name_of opts s (ancestor opts s start (Suc n)) = Some nm \<and> nm \<noteq> adbd_quoted"
  show "get_adbd_cred_struct opts start s = None"
  proof (cases "get_adbd_cred_struct opts start s")
    case None
    then show ?thesis .
  next
    case (Some y)
    from get_adbd_cred_struct_never_returns[OF Some rel ch] show ?thesis ..
  qed
next
  assume "(\<forall>k<n. \<exists>nm. name_of opts s (ancestor opts s start (Suc k)) = Some nm \<and> nm \<noteq> adbd_quoted)
          \<and> name_of opts s (ancestor opts s start (Suc n)) = Some adbd_quoted"
  then show "\<exists>s'. get_adbd_cred_struct opts start s =
                  Some (Inr (Some (memory s (ancestor opts s start (Suc n) + offset_to_comm opts - 4))),
                        s')"
    using get_adbd_cred_struct_returns[OF rel, of n opts start] by blast
qed

theorem get_adbd_cred_struct_unbounded_witness:
  "get_adbd_cred_struct profile_A 0xC1000000 own_parent = None
   \<and> (\<exists>s'. get_adbd_cred_struct profile_A 0xC1000000 chain_of_three =
          Some (Inr (Some 0xC4000000), s'))"
proof -
  have r1: "malformed own_parent = []" by (simp add: own_parent_def quiet_gdb_def)
  have r2: "malformed chain_of_three = []" by (simp add: chain_of_three_def quiet_gdb_def)
  have nm1: "name_of profile_A own_parent 0xC1000000 = Some ([CHR 0x22] @ ''init'' @ [CHR 0x22])"
    by (simp add: name_of_def own_parent_def quiet_gdb_def)
  have h1: "\<forall>n. \<exists>nm. name_of profile_A own_parent (ancestor profile_A own_parent 0xC1000000 (Suc n))
                       = Some nm \<and> nm \<noteq> adbd_quoted"
    by (simp add: own_parent_ancestors nm1 adbd_quoted_def)
  have a1: "ancestor profile_A chain_of_three 0xC1000000 (Suc 0) = 0xC2000000"
    and a2: "ancestor profile_A chain_of_three 0xC1000000 (Suc 1) = 0xC3000000"
    by (simp_all add: ancestor_def parent_of_def chain_of_three_def quiet_gdb_def profile_A_def)
  have h2: "(\<forall>k<1. \<exists>nm. name_of profile_A chain_of_three
                (ancestor profile_A chain_of_three 0xC1000000 (Suc k)) = Some nm \<and> nm \<noteq> adbd_quoted)
          \<and> name_of profile_A chain_of_three
                (ancestor profile_A chain_of_three 0xC1000000 (Suc 1)) = Some adbd_quoted"
    using a1 a2
    by (simp add: name_of_def chain_of_three_def quiet_gdb_def profile_A_def adbd_quoted_def)
  have m: "memory chain_of_three (0xC3000000 + offset_to_comm profile_A - 4) = 0xC4000000"
    by (simp add: chain_of_three_def quiet_gdb_def profile_A_def)
  from get_adbd_cred_struct_unbounded[OF r1, of profile_A "0xC1000000"] h1
  have c1: "get_adbd_cred_struct profile_A 0xC1000000 own_parent = None" by blast
  from get_adbd_cred_struct_unbounded[OF r2, of profile_A "0xC1000000" 1] h2
  have "\<exists>s'. get_adbd_cred_struct profile_A 0xC1000000 chain_of_three =
          Some (Inr (Some (memory chain_of_three
             (ancestor profile_A chain_of_three 0xC1000000 (Suc 1) + offset_to_comm profile_A - 4))), s')"
    by blast
  then have c2: "\<exists>s'. get_adbd_cred_struct profile_A 0xC1000000 chain_of_three =
          Some (Inr (Some 0xC4000000), s')"
    by (simp only: a2 m)
  from c1 c2 show ?thesis ..
qed

theorem cycle_walk_counterexample:
  "get_adbd_cred_struct profile_A 0xC1000000 cycle = None"
proof (cases "get_adbd_cred_struct profile_A 0xC1000000 cycle")
  case None
  then show ?thesis .
next
  case (Some y)
  have r: "malformed cycle = []" by (simp add: cycle_def quiet_gdb_def)
  have names: "name_of profile_A cycle 0xC1000000 = Some ([CHR 0x22] @ ''STAGER'' @ [CHR 0x22])"
    "name_of profile_A cycle 0xC2000000 = Some ([CHR 0x22] @ ''sh'' @ [CHR 0x22])"
    by (simp_all add: name_of_def cycle_def quiet_gdb_def profile_A_def)
  have h: "\<forall>n. \<exists>nm. name_of profile_A cycle (ancestor profile_A cycle 0xC1000000 (Suc n))
                       = Some nm \<and> nm \<noteq> adbd_quoted"
    by (simp add: cycle_ancestors names adbd_quoted_def)
  from get_adbd_cred_struct_never_returns[OF Some r h] show ?thesis ..
qed

section \<open>The two ways to a credential pointer\<close>

text \<open>
  Claim C10. \<open>single_mode\<close> reads the credential pointer it patches at
  \<open>taskStruct + offset_to_comm - 8\<close>, the walk of \<open>get_adbd_cred_struct\<close> reads the one
  it returns at \<open>parentStruct + offset_to_comm - 4\<close>, and the claim says that for a
  structure \<open>get_process_task_struct\<close> has validated the two words are the same address.
  The validation compares what \<open>read_mem\<close> returns, and after a malformed first reply
  that is \<open>None\<close> (the retry lacks its \<open>return\<close>, see claim C3). On \<open>flaky_world\<close> the
  structure \<open>0xBFFFFDA0\<close> is validated by \<open>None == None\<close> although the word at
  \<open>0xBFFFFDA0 + 0x288 - 8\<close> is \<open>1\<close> and the word at \<open>0xBFFFFDA0 + 0x288 - 4\<close> is \<open>2\<close>;
  \<open>single_mode\<close> then reads \<open>1\<close> and patches the offsets from address \<open>1\<close>, while the
  other word names address \<open>2\<close>.
\<close>

theorem single_mode_after_retried_reads:
  "fst (get_process_task_struct profile_A ''shell''
          (snd (GDB_stub_controller_init (gdbsc flaky_world)))) = Inr 0xBFFFFDA0
   \<and> memory flaky_three_hits (0xBFFFFDA0 + offset_to_comm profile_A - 8) = 1
   \<and> memory flaky_three_hits (0xBFFFFDA0 + offset_to_comm profile_A - 4) = 2
   \<and> fst (single_mode profile_A flaky_world) = Inr ()
   \<and> sent (gdbsc (snd (single_mode profile_A flaky_world))) =
       [Target_remote, Find ''shell'',
        Examine_word 0xC0000020, Examine_word 0xC0000020,
        Examine_word 0xC0000024, Examine_word 0xC0000024,
        Examine_word 0xC0000020,
        Set_word (1 + 0x04) 0, Set_word (1 + 0x08) 0, Set_word (1 + 0x0c) 0,
        Set_word (1 + 0x10) 0, Set_word (1 + 0x1c) 0, Set_word (1 + 0x20) 0,
        Set_word (1 + 0x14) 0, Set_word (1 + 0x18) 0,
        Set_word (1 + 0x30) 0xffffffff, Set_word (1 + 0x34) 0xffffffff,
        Set_word (1 + 0x38) 0xffffffff, Set_word (1 + 0x3c) 0xffffffff,
        Set_word (1 + 0x40) 0xffffffff, Set_word (1 + 0x44) 0xffffffff,
        Set_word 0xC0A77548 0, Set_word 0xC0A7754C 0, Set_word 0xC0A77550 0,
        Exit]"
proof -
  have r: "check_process_is_running ''shell'' ''ps'' (Some device_3_10) = Inr ()"
    by (rule device_3_10_runs)
  show ?thesis
    using r
    by (simp add: single_mode_def flaky_world_def profile_A_def
      GDB_stub_controller_init_def get_process_task_struct_def gdb_find_def
      flaky_three_hits_def three_hits_def
      quiet_gdb_def examine_word_def disable_selinux_def set_full_capabilities_def
      set_root_ids_def write_mem_def stop_def Let_def)
qed

text \<open>
  On a session whose replies to \<open>x/xw\<close> are all well-formed the two ways agree. Let
  \<open>get_process_task_struct\<close> return \<open>taskStruct\<close>. Then the next command of
  \<open>single_mode\<close> reads the word at \<open>taskStruct + offset_to_comm - 8\<close>, and the writes of
  \<open>set_root_ids\<close> and \<open>set_full_capabilities\<close> that follow go to the address that word
  holds. The walk of \<open>get_adbd_cred_struct\<close> returns, for a parent named \<open>"adbd"\<close>, the
  word at \<open>parentStruct + offset_to_comm - 4\<close>. For the validated structure the words at
  \<open>taskStruct + offset_to_comm - 8\<close> and at \<open>taskStruct + offset_to_comm - 4\<close> are equal,
  so \<open>read_mem\<close> returns the same credential address at both.
\<close>

lemma credential_pointer_derivations_agree:
  assumes run: "check_process_is_running (magic_name opts) (ps_cmd opts) (adb w) = Inr ()"
    and up: "target_up (gdbsc w)"
    and rel: "malformed (gdbsc w) = []"
    and loc: "get_process_task_struct opts (magic_name opts)
                (snd (GDB_stub_controller_init (gdbsc w))) = (Inr taskStruct, g1)"
  shows "(\<exists>xs. issued g1 (gdbsc (snd (single_mode opts w))) =
            Examine_word (taskStruct + offset_to_comm opts - 8)
            # issued g1 (set_full_capabilities (memory g1 (taskStruct + offset_to_comm opts - 8))
                 (set_root_ids (memory g1 (taskStruct + offset_to_comm opts - 8)) True g1)) @ xs)
     \<and> memory g1 (taskStruct + offset_to_comm opts - 8) =
         memory g1 (taskStruct + offset_to_comm opts - 4)
     \<and> fst (read_mem (taskStruct + offset_to_comm opts - 8) 0 g1) =
         fst (read_mem (taskStruct + offset_to_comm opts - 4) 0 g1)
     \<and> (\<forall>cur parentStruct s. malformed s = []
           \<and> memory s (cur + offset_to_comm opts - offset_to_parent opts) = parentStruct
           \<and> cstrings s (parentStruct + offset_to_comm opts) = Some adbd_quoted
          \<longrightarrow> (\<exists>s'. get_adbd_cred_struct opts cur s =
                  Some (Inr (Some (memory s (parentStruct + offset_to_comm opts - 4))), s')))"
proof -
  let ?g0 = "snd (GDB_stub_controller_init (gdbsc w))"
  have m0: "malformed ?g0 = []" using rel by (simp add: init_fields)
  from located_is_validated[OF m0 loc]
  have v: "memory g1 = memory ?g0" "malformed g1 = []"
    "memory ?g0 (taskStruct + offset_to_comm opts - 8) = memory ?g0 (taskStruct + offset_to_comm opts - 4)"
    by simp_all
  have eq: "memory g1 (taskStruct + offset_to_comm opts - 8) =
         memory g1 (taskStruct + offset_to_comm opts - 4)"
    using v by simp
  have rd: "fst (read_mem (taskStruct + offset_to_comm opts - 8) 0 g1) =
         fst (read_mem (taskStruct + offset_to_comm opts - 4) 0 g1)"
    using eq by (simp add: read_mem_reliable[OF v(2)] del: read_mem.simps)
  have walk: "\<exists>s'. get_adbd_cred_struct opts cur s =
                  Some (Inr (Some (memory s (parentStruct + offset_to_comm opts - 4))), s')"
    if "malformed s = []"
       "memory s (cur + offset_to_comm opts - offset_to_parent opts) = parentStruct"
       "cstrings s (parentStruct + offset_to_comm opts) = Some adbd_quoted"
    for cur parentStruct s
    using get_adbd_cred_struct_returns[of s 0 opts cur] that
    by (simp add: ancestor_def parent_of_def name_of_def)
  from single_mode_patch[OF run up loc v(2)] eq rd walk show ?thesis by blast
qed

lemma credential_pointer_derivations_agree_example:
  "(\<exists>xs. issued (three_hits\<lparr>sent := [Target_remote, Find ''shell'',
                       Examine_word 0xC0000020, Examine_word 0xC0000024,
                       Examine_word 0xC0000040, Examine_word 0xC0000044]\<rparr>)
              (gdbsc (snd (single_mode profile_A shell_world))) =
         [Examine_word 0xC0000040,
          Set_word 0xC5000004 0, Set_word 0xC5000008 0, Set_word 0xC500000c 0,
          Set_word 0xC5000010 0, Set_word 0xC500001c 0, Set_word 0xC5000020 0,
          Set_word 0xC5000014 0, Set_word 0xC5000018 0,
          Set_word 0xC5000030 0xffffffff, Set_word 0xC5000034 0xffffffff,
          Set_word 0xC5000038 0xffffffff, Set_word 0xC500003c 0xffffffff,
          Set_word 0xC5000040 0xffffffff, Set_word 0xC5000044 0xffffffff] @ xs)
   \<and> memory three_hits 0xC0000040 = memory three_hits 0xC0000044
   \<and> (\<exists>s'. get_adbd_cred_struct profile_A 0xBFFFFDC0 staged =
          Some (Inr (Some 0xC2000000), s'))"
proof -
  let ?g1 = "three_hits\<lparr>sent := [Target_remote, Find ''shell'',
                       Examine_word 0xC0000020, Examine_word 0xC0000024,
                       Examine_word 0xC0000040, Examine_word 0xC0000044]\<rparr>"
  have h1: "check_process_is_running (magic_name profile_A) (ps_cmd profile_A) (adb shell_world)
              = Inr ()"
    by (simp add: shell_world_def device_3_10_runs profile_A_def)
  have h2: "target_up (gdbsc shell_world)"
    and h3: "malformed (gdbsc shell_world) = []"
    by (simp_all add: shell_world_def three_hits_def quiet_gdb_def)
  have h4: "get_process_task_struct profile_A (magic_name profile_A)
             (snd (GDB_stub_controller_init (gdbsc shell_world))) = (Inr 0xBFFFFDC0, ?g1)"
    using three_hits_located by (simp add: shell_world_def profile_A_def)
  have c: "offset_to_comm profile_A = 0x288" "offset_to_parent profile_A = 0xe0"
    by (simp_all add: profile_A_def)
  have m: "memory ?g1 = memory three_hits" by simp
  have v: "memory three_hits 0xC0000040 = 0xC5000000" "memory three_hits 0xC0000044 = 0xC5000000"
    by (simp_all add: three_hits_def)
  have w: "malformed staged = []
           \<and> memory staged (0xBFFFFDC0 + offset_to_comm profile_A - offset_to_parent profile_A)
               = 0xC1000000
           \<and> cstrings staged (0xC1000000 + offset_to_comm profile_A) = Some adbd_quoted"
    "memory staged (0xC1000000 + offset_to_comm profile_A - 4) = 0xC2000000"
    by (simp_all add: staged_def quiet_gdb_def c)
  from credential_pointer_derivations_agree[OF h1 h2 h3 h4]
  have a: "\<exists>xs. issued ?g1 (gdbsc (snd (single_mode profile_A shell_world))) =
            Examine_word (0xBFFFFDC0 + offset_to_comm profile_A - 8)
            # issued ?g1 (set_full_capabilities (memory ?g1 (0xBFFFFDC0 + offset_to_comm profile_A - 8))
                 (set_root_ids (memory ?g1 (0xBFFFFDC0 + offset_to_comm profile_A - 8)) True ?g1)) @ xs"
    and b: "memory ?g1 (0xBFFFFDC0 + offset_to_comm profile_A - 8) =
         memory ?g1 (0xBFFFFDC0 + offset_to_comm profile_A - 4)"
    and d: "\<forall>cur parentStruct s. malformed s = []
           \<and> memory s (cur + offset_to_comm profile_A - offset_to_parent profile_A) = parentStruct
           \<and> cstrings s (parentStruct + offset_to_comm profile_A) = Some adbd_quoted
          \<longrightarrow> (\<exists>s'. get_adbd_cred_struct profile_A cur s =
                  Some (Inr (Some (memory s (parentStruct + offset_to_comm profile_A - 4))), s'))"
    by blast+
  from a have a': "\<exists>xs. issued ?g1 (gdbsc (snd (single_mode profile_A shell_world))) =
         [Examine_word 0xC0000040,
          Set_word 0xC5000004 0, Set_word 0xC5000008 0, Set_word 0xC500000c 0,
          Set_word 0xC5000010 0, Set_word 0xC500001c 0, Set_word 0xC5000020 0,
          Set_word 0xC5000014 0, Set_word 0xC5000018 0,
          Set_word 0xC5000030 0xffffffff, Set_word 0xC5000034 0xffffffff,
          Set_word 0xC5000038 0xffffffff, Set_word 0xC500003c 0xffffffff,
          Set_word 0xC5000040 0xffffffff, Set_word 0xC5000044 0xffffffff] @ xs"
    by (simp add: c v issued_def set_full_capabilities_sent set_root_ids_sent)
  from b have b': "memory three_hits 0xC0000040 = memory three_hits 0xC0000044"
    by (simp add: c)
  from d[rule_format, OF w(1)] have d': "\<exists>s'. get_adbd_cred_struct profile_A 0xBFFFFDC0 staged =
          Some (Inr (Some 0xC2000000), s')"
    by (simp only: w(2))
  from a' b' d' show ?thesis by blast
qed

section \<open>The profile of a kernel version\<close>




section \<open>The scenario of section 8\<close>

text \<open>
  Claim C2, as amended. When \<open>kernel_version\<close> returns a profile of the bracket
  \<open>v \<le> 3.10\<close>, the main block pins \<open>offset_to_comm = 0x288\<close> down together with the rest
  of profile A; and when the search for \<open>shell\<close> returns first an address \<open>A\<close> with
  \<open>A mod 16 = 8\<close> (which is \<open>0x288 mod 16\<close>) and with equal words at \<open>A - 8\<close> and
  \<open>A - 4\<close>, on a session with well-formed replies, \<open>get_process_task_struct\<close> returns
  \<open>A - 0x288\<close>. The address \<open>0x10010010\<close> of the claim has \<open>0x10010010 mod 16 = 0\<close>:
  the alignment filter drops it, and the run ends with
  \<open>Exception("Could not find process task struct")\<close>. Eight bytes further, at
  \<open>0x10010018\<close>, the result is \<open>0x1000FD90\<close>. (What \<open>kernel_version\<close> does with the text
  \<open>3.4\<close> is not part of the amended claim: read as a float, \<open>3.4\<close> is greater than
  \<open>3.18\<close>.)
\<close>

theorem profile_A_end_to_end:
  assumes kv: "kernel_version device = Inr kv"
    and bracket: "float_le (fst kv) float_3_10"
    and rel: "malformed s = []"
    and hit: "find_hits s ''shell'' = A # rest"
    and aligned: "A mod 16 = 8"
    and dup: "memory s (A - 8) = memory s (A - 4)"
  shows "offset_to_comm (pin_down opts kv) = 0x288
     \<and> offset_to_parent (pin_down opts kv) = 0xe0
     \<and> offset_selinux (pin_down opts kv) = [0xC0A77548, 0xC0A7754C, 0xC0A77550]
     \<and> ps_cmd (pin_down opts kv) = ''ps''
     \<and> fst (get_process_task_struct (pin_down opts kv) ''shell'' s) = Inr (A - 0x288)"
proof -
  have p: "pin_down opts kv = opts\<lparr>version := fst kv, offset_to_comm := 0x288,
      offset_to_parent := 0xe0, offset_selinux := [0xC0A77548, 0xC0A7754C, 0xC0A77550],
      ps_cmd := ''ps''\<rparr>"
    using kv bracket
    by (auto simp add: kernel_version_def pin_down_def float_gt_def
          split: option.splits list.splits if_splits)
  from get_process_task_struct_reliable[OF rel, of "pin_down opts kv" "''shell''"]
  obtain xs where "get_process_task_struct (pin_down opts kv) ''shell'' s =
     (case List.find (\<lambda>c. c mod 16 = offset_to_comm (pin_down opts kv) mod 16
                          \<and> memory s (c - 8) = memory s (c - 4)) (find_hits s ''shell'') of
        None \<Rightarrow> Inl StructNotFound | Some c \<Rightarrow> Inr (c - offset_to_comm (pin_down opts kv)),
      s\<lparr>sent := sent s @ xs\<rparr>)" by blast
  then have "fst (get_process_task_struct (pin_down opts kv) ''shell'' s) = Inr (A - 0x288)"
    using hit aligned dup by (simp add: p)
  then show ?thesis by (simp add: p)
qed

theorem profile_A_end_to_end_witness:
  "kernel_version (Some device_3_10) =
     Inr (float_3_10, 0x288, 0xe0, [0xC0A77548, 0xC0A7754C, 0xC0A77550], ''ps'')
   \<and> fst (get_process_task_struct
            (pin_down profile_A
               (float_3_10, 0x288, 0xe0, [0xC0A77548, 0xC0A7754C, 0xC0A77550], ''ps''))
            ''shell'' scenario_8_aligned) = Inr 0x1000FD90"
proof -
  have b: "float_le (fst (float_3_10, 0x288 :: int, 0xe0 :: int,
              [0xC0A77548, 0xC0A7754C, 0xC0A77550 :: int], ''ps'')) float_3_10"
    by (simp add: float_literals)
  have r: "malformed scenario_8_aligned = []"
    and h: "find_hits scenario_8_aligned ''shell'' = 0x10010018 # []"
    and d: "memory scenario_8_aligned (0x10010018 - 8) = memory scenario_8_aligned (0x10010018 - 4)"
    by (simp_all add: scenario_8_aligned_def quiet_gdb_def)
  have a: "(0x10010018 :: int) mod 16 = 8" by simp
  show ?thesis
    using profile_A_end_to_end[OF kernel_version_3_10 b r h a d, of profile_A]
    by (simp add: kernel_version_3_10)
qed

theorem scenario_8_counterexample:
  "kernel_version (Some (device_reporting ''3.4.67'')) = Inl NotImplementedError
   \<and> memory scenario_8 (0x10010010 - 8) = memory scenario_8 (0x10010010 - 4)
   \<and> fst (get_process_task_struct profile_A ''shell'' scenario_8) = Inl StructNotFound"
proof -
  have "kernel_version (Some (device_reporting ''3.4.67'')) = Inl NotImplementedError"
    by code_simp
  moreover have "fst (get_process_task_struct profile_A ''shell'' scenario_8) = Inl StructNotFound"
    by (simp add: get_process_task_struct_def gdb_find_def scenario_8_def quiet_gdb_def
          profile_A_def)
  ultimately show ?thesis by (simp add: scenario_8_def quiet_gdb_def)
qed

section \<open>Failure and the debug session\<close>

text \<open>
  Claim C6. The claim says that every failure releases the debug session before the
  error reaches the caller. \<open>get_process_task_struct\<close> raises
  \<open>Exception("Could not find process task struct")\<close> without calling \<open>self.stop()\<close>, and
  no mode catches it: on a target where the search for the process name finds nothing,
  \<open>single\<close> mode ends with that exception, the controller is not stopped and no
  \<open>exit\<close> was sent. (The two other \<open>raise\<close> statements of the class, in \<open>__init__\<close> and
  in \<open>read_mem\<close>, do call \<open>self.stop()\<close> first.)
\<close>

theorem struct_not_found_leaves_session_open:
  "emuroot Single profile_A \<lparr>adb = Some device_3_10, gdbsc = quiet_gdb, cleaned = False\<rparr> =
     Some (Inl StructNotFound,
           \<lparr>adb = Some device_3_10,
            gdbsc = quiet_gdb\<lparr>sent := [Target_remote, Find ''shell'']\<rparr>,
            cleaned = False\<rparr>)
   \<and> stopped (quiet_gdb\<lparr>sent := [Target_remote, Find ''shell'']\<rparr>) = False"
proof -
  have p: "pin_down profile_A
      (float_3_10, 0x288, 0xe0, [0xC0A77548, 0xC0A7754C, 0xC0A77550], ''ps'') = profile_A"
    by (simp add: pin_down_def profile_A_def)
  have r: "check_process_is_running ''shell'' ''ps'' (Some device_3_10) = Inr ()"
    by (simp add: check_process_is_running_def device_3_10_def)
  have s: "single_mode profile_A \<lparr>adb = Some device_3_10, gdbsc = quiet_gdb, cleaned = False\<rparr> =
     (Inl StructNotFound,
           \<lparr>adb = Some device_3_10,
            gdbsc = quiet_gdb\<lparr>sent := [Target_remote, Find ''shell'']\<rparr>,
            cleaned = False\<rparr>)"
    using r
    by (simp add: single_mode_def profile_A_def GDB_stub_controller_init_def
          get_process_task_struct_def gdb_find_def quiet_gdb_def)
  show ?thesis
    by (simp add: emuroot_def kernel_version_3_10 p s) (simp add: quiet_gdb_def)
qed

end
